theory Spec2Isabelle
  imports Main "HOL-Library.Sublist"
begin

section \<open>Python values, exceptions and the outside world\<close>

text \<open>
  The repository is three small Python modules: \<^verbatim>\<open>experts/base_expert.py\<close> (the class
  \<^verbatim>\<open>BaseExpert\<close>), \<^verbatim>\<open>baseline/standard.py\<close> and \<^verbatim>\<open>baseline/chain_of_thought.py\<close>
  (one function \<^verbatim>\<open>solve\<close> each). Exceptions are values of a sum type, \<open>Inl\<close> carrying
  the exception. A class attribute or a return value is either \<^verbatim>\<open>None\<close> or a string.
\<close>

datatype pyval = PNone | PStr string

datatype error =
    AttributeError string
  | TypeError
  | KeyError string
  | ValueError
  | BackendError

definition newline :: char where
  "newline = CHR 0x0A"

text \<open>
  \<^verbatim>\<open>a + b\<close> where the result is wanted as a string: defined on two strings only;
  \<^verbatim>\<open>None + '\n'\<close> and \<^verbatim>\<open>'x' + None\<close> raise \<^verbatim>\<open>TypeError\<close>.
\<close>

fun py_add :: "pyval \<Rightarrow> pyval \<Rightarrow> error + string" where
  "py_add (PStr a) (PStr b) = Inr (a @ b)"
| "py_add _ _ = Inl TypeError"

text \<open>
  Attribute lookup \<^verbatim>\<open>self.X\<close>: the attribute is either defined on the (sub)class, with a
  value, or not defined at all, and then the lookup raises \<^verbatim>\<open>AttributeError\<close>.
\<close>

definition getattr :: "string \<Rightarrow> pyval option \<Rightarrow> error + pyval" where
  "getattr attr slot = (case slot of None \<Rightarrow> Inl (AttributeError attr) | Some v \<Rightarrow> Inr v)"

text \<open>Subscription \<^verbatim>\<open>d[k]\<close> of a dictionary: \<^verbatim>\<open>KeyError\<close> on a missing key.\<close>

definition getitem :: "(string \<rightharpoonup> string) \<Rightarrow> string \<Rightarrow> error + string" where
  "getitem d k = (case d k of None \<Rightarrow> Inl (KeyError k) | Some v \<Rightarrow> Inr v)"

subsection \<open>The text-completion backend\<close>

text \<open>
  The backend is an opaque function from a request to a completion or an exception. What
  the program does to the outside world is a trace of events: the call
  \<^verbatim>\<open>ChatOpenAI(model=..., temperature=...)\<close> with its two arguments, the call
  \<^verbatim>\<open>predict(**kwargs)\<close> with its keyword arguments, and the dispatch of one request.
  A request carries the temperature that the client holds, if it holds one.
\<close>

record request =
  req_model :: string
  req_temperature :: "int option"
  req_prompt :: string

datatype event =
    Client_created string int
  | Predict_called "string \<rightharpoonup> string"
  | Dispatched request

type_synonym world = "event list"

type_synonym backend = "request \<Rightarrow> error + string"

fun dispatched :: "world \<Rightarrow> request list" where
  "dispatched [] = []"
| "dispatched (Client_created m t # w) = dispatched w"
| "dispatched (Predict_called kw # w) = dispatched w"
| "dispatched (Dispatched r # w) = r # dispatched w"

text \<open>The names that the calls of \<^verbatim>\<open>predict\<close> in a trace bind, call by call.\<close>

fun bound_names :: "world \<Rightarrow> string set list" where
  "bound_names [] = []"
| "bound_names (Client_created m t # w) = bound_names w"
| "bound_names (Predict_called kw # w) = dom kw # bound_names w"
| "bound_names (Dispatched r # w) = bound_names w"

subsection \<open>Prompt templates\<close>

text \<open>
  \<^verbatim>\<open>PromptTemplate.from_template\<close> reads a template in Python's format-string syntax.
  The part of that syntax which this repository's templates use is read here: literal
  text, \<^verbatim>\<open>{{\<close> and \<^verbatim>\<open>}}\<close> for a literal brace, and \<^verbatim>\<open>{name}\<close> for a replacement
  field whose name is a plain identifier (letters, digits and underscores, not starting
  with a digit, and not the name \<^verbatim>\<open>stop\<close>, which the prompt classes reserve). A lone
  \<^verbatim>\<open>}\<close> in the text is a \<^verbatim>\<open>ValueError\<close>. Every other use of a brace (conversions,
  format specifications, attribute or index access, nested or unclosed fields, empty or
  numeric names) is left to the library: the reading stops with \<open>Not_plain\<close>.
\<close>

datatype piece = Literal_text string | Field_name string

definition letters :: string where
  "letters = ''abcdefghijklmnopqrstuvwxyzABCDEFGHIJKLMNOPQRSTUVWXYZ_''"

definition digits :: string where
  "digits = ''0123456789''"

definition is_name_char :: "char \<Rightarrow> bool" where
  "is_name_char c = (c \<in> set letters \<or> c \<in> set digits)"

definition plain_name :: "string \<Rightarrow> bool" where
  "plain_name n = (case n of [] \<Rightarrow> False | c # cs \<Rightarrow> c \<in> set letters \<and> n \<noteq> ''stop'')"

text \<open>
  The name of a field, read after the opening brace up to the closing brace, and the
  text that follows the closing brace.
\<close>

fun scan_name :: "string \<Rightarrow> (string \<times> string) option" where
  "scan_name [] = None"
| "scan_name (c # cs) =
     (if c = CHR ''}'' then Some ([], cs)
      else if is_name_char c then
        (case scan_name cs of None \<Rightarrow> None | Some (n, r) \<Rightarrow> Some (c # n, r))
      else None)"

lemma scan_name_shorter: "scan_name s = Some (n, r) \<Longrightarrow> length r < length s"
  by (induction s arbitrary: n r) (auto split: if_splits option.splits)

datatype parsed = Plain "piece list" | Lone_closing_brace | Not_plain

text \<open>A literal character joins the literal text that follows it, if any.\<close>

fun add_char :: "char \<Rightarrow> piece list \<Rightarrow> piece list" where
  "add_char c (Literal_text s # ps) = Literal_text (c # s) # ps"
| "add_char c ps = Literal_text [c] # ps"

fun then_parsed :: "(piece list \<Rightarrow> piece list) \<Rightarrow> parsed \<Rightarrow> parsed" where
  "then_parsed f (Plain ps) = Plain (f ps)"
| "then_parsed f Lone_closing_brace = Lone_closing_brace"
| "then_parsed f Not_plain = Not_plain"

text \<open>
  The template is read from left to right, and the first thing that is not plain decides
  the outcome, as the first error of the library's own left-to-right reading does.
\<close>

function parse_fstring :: "string \<Rightarrow> parsed" where
  "parse_fstring [] = Plain []"
| "parse_fstring [c] =
     (if c = CHR ''{'' then Not_plain
      else if c = CHR ''}'' then Lone_closing_brace
      else Plain [Literal_text [c]])"
| "parse_fstring (c # d # cs) =
     (if c = CHR ''{'' then
        (if d = CHR ''{'' then then_parsed (add_char c) (parse_fstring cs)
         else (case scan_name (d # cs) of
                 None \<Rightarrow> Not_plain
               | Some (n, r) \<Rightarrow>
                   if plain_name n then then_parsed ((#) (Field_name n)) (parse_fstring r)
                   else Not_plain))
      else if c = CHR ''}'' then
        (if d = CHR ''}'' then then_parsed (add_char c) (parse_fstring cs)
         else Lone_closing_brace)
      else then_parsed (add_char c) (parse_fstring (d # cs)))"
  by pat_completeness auto
termination
  by (relation "measure length") (auto dest!: scan_name_shorter simp del: scan_name.simps)

fun field_names :: "piece list \<Rightarrow> string list" where
  "field_names [] = []"
| "field_names (Literal_text s # ps) = field_names ps"
| "field_names (Field_name n # ps) = n # field_names ps"

record prompt_template =
  template :: string
  pieces :: "piece list"

definition input_variables :: "prompt_template \<Rightarrow> string set" where
  "input_variables pt = set (field_names (pieces pt))"

subsection \<open>The library\<close>

text \<open>
  What the repository's code cannot decide is a parameter: the temperature that a client
  holds once it is constructed for a model with a temperature argument (a client library
  may keep the argument or drop it, depending on the model), and the reading of a
  template that is not plain (the library refuses it, or reads it into pieces of its
  own). The construction of a client is taken to succeed.
\<close>

record library =
  kept_temperature :: "string \<Rightarrow> int \<Rightarrow> int option"
  other_templates :: "string \<Rightarrow> error + piece list"

record chat_client =
  client_model :: string
  client_temperature :: "int option"

definition ChatOpenAI :: "library \<Rightarrow> string \<Rightarrow> int \<Rightarrow> world \<Rightarrow> chat_client \<times> world" where
  "ChatOpenAI lib m t w =
     (\<lparr>client_model = m, client_temperature = kept_temperature lib m t\<rparr>,
      w @ [Client_created m t])"

definition from_template :: "library \<Rightarrow> string \<Rightarrow> error + prompt_template" where
  "from_template lib t =
     (case parse_fstring t of
        Plain ps \<Rightarrow> Inr \<lparr>template = t, pieces = ps\<rparr>
      | Lone_closing_brace \<Rightarrow> Inl ValueError
      | Not_plain \<Rightarrow>
          (case other_templates lib t of
             Inl e \<Rightarrow> Inl e
           | Inr ps \<Rightarrow> Inr \<lparr>template = t, pieces = ps\<rparr>))"

text \<open>
  Rendering substitutes the keyword arguments for the fields, left to right; a field
  with no argument of its name raises \<^verbatim>\<open>ValueError\<close> (the chain's ``missing some input
  keys''). Arguments that name no field are ignored.
\<close>

fun format_pieces :: "piece list \<Rightarrow> (string \<rightharpoonup> string) \<Rightarrow> error + string" where
  "format_pieces [] kw = Inr []"
| "format_pieces (Literal_text s # ps) kw =
     (case format_pieces ps kw of Inl e \<Rightarrow> Inl e | Inr t \<Rightarrow> Inr (s @ t))"
| "format_pieces (Field_name n # ps) kw =
     (case kw n of
        None \<Rightarrow> Inl ValueError
      | Some v \<Rightarrow> (case format_pieces ps kw of Inl e \<Rightarrow> Inl e | Inr t \<Rightarrow> Inr (v @ t)))"

subsection \<open>Chains\<close>

text \<open>
  An \<^verbatim>\<open>LLMChain\<close> pairs a client with a prompt template. \<^verbatim>\<open>predict(**kwargs)\<close> renders
  the template, sends the one request to the backend and returns its completion.
\<close>

record llm_chain =
  chain_llm :: chat_client
  chain_prompt :: prompt_template

definition LLMChain :: "chat_client \<Rightarrow> prompt_template \<Rightarrow> llm_chain" where
  "LLMChain c pt = \<lparr>chain_llm = c, chain_prompt = pt\<rparr>"

definition request_of :: "llm_chain \<Rightarrow> string \<Rightarrow> request" where
  "request_of ch p =
     \<lparr>req_model = client_model (chain_llm ch),
      req_temperature = client_temperature (chain_llm ch),
      req_prompt = p\<rparr>"

definition predict ::
  "llm_chain \<Rightarrow> (string \<rightharpoonup> string) \<Rightarrow> backend \<Rightarrow> world \<Rightarrow> (error + string) \<times> world" where
  "predict ch kw be w =
     (case format_pieces (pieces (chain_prompt ch)) kw of
        Inl e \<Rightarrow> (Inl e, w @ [Predict_called kw])
      | Inr p \<Rightarrow>
          (be (request_of ch p), w @ [Predict_called kw, Dispatched (request_of ch p)]))"

section \<open>\<^verbatim>\<open>experts/base_expert.py\<close>\<close>

text \<open>
  \<^verbatim>\<open>BaseExpert\<close> reads \<^verbatim>\<open>ROLE_DESCRIPTION\<close>, \<^verbatim>\<open>FORWARD_TASK\<close> and
  \<^verbatim>\<open>BACKWARD_TASK\<close> from \<^verbatim>\<open>self\<close>; the base class defines none of them, a subclass
  supplies them as class attributes. A slot is \<open>None\<close> when the attribute is not defined
  and \<open>Some v\<close> when it is defined with the value \<open>v\<close> (which may be Python's \<^verbatim>\<open>None\<close>).
\<close>

record expert_class =
  ROLE_DESCRIPTION :: "pyval option"
  FORWARD_TASK :: "pyval option"
  BACKWARD_TASK :: "pyval option"

text \<open>
  The instance after \<^verbatim>\<open>__init__\<close>. The two backward attributes are set only under
  \<^verbatim>\<open>hasattr(self, 'BACKWARD_TASK')\<close>, so they are optional.
\<close>

record expert =
  name :: string
  description :: string
  model :: string
  llm :: chat_client
  forward_prompt_template :: string
  forward_chain :: llm_chain
  backward_prompt_template :: "string option"
  backward_chain :: "llm_chain option"

text \<open>
  \<^verbatim>\<open>self.ROLE_DESCRIPTION + '\n' + self.TASK\<close>, in Python's order of evaluation: the
  role is looked up and joined with the newline before the task is looked up.
\<close>

definition role_and_task :: "expert_class \<Rightarrow> string \<Rightarrow> pyval option \<Rightarrow> error + string" where
  "role_and_task cls task_name task =
     (case getattr ''ROLE_DESCRIPTION'' (ROLE_DESCRIPTION cls) of
        Inl e \<Rightarrow> Inl e
      | Inr r \<Rightarrow>
          (case py_add r (PStr [newline]) of
             Inl e \<Rightarrow> Inl e
           | Inr rn \<Rightarrow>
               (case getattr task_name task of
                  Inl e \<Rightarrow> Inl e
                | Inr t \<Rightarrow> py_add (PStr rn) t)))"

definition BaseExpert_init ::
  "library \<Rightarrow> expert_class \<Rightarrow> string \<Rightarrow> string \<Rightarrow> string \<Rightarrow> world \<Rightarrow>
     (error + expert) \<times> world" where
  "BaseExpert_init lib cls n d m w =
     (case ChatOpenAI lib m 0 w of
        (client, w1) \<Rightarrow>
          (case role_and_task cls ''FORWARD_TASK'' (FORWARD_TASK cls) of
             Inl e \<Rightarrow> (Inl e, w1)
           | Inr fpt \<Rightarrow>
               (case from_template lib fpt of
                  Inl e \<Rightarrow> (Inl e, w1)
                | Inr fp \<Rightarrow>
                    (case BACKWARD_TASK cls of
                       None \<Rightarrow>
                         (Inr \<lparr>name = n, description = d, model = m, llm = client,
                               forward_prompt_template = fpt,
                               forward_chain = LLMChain client fp,
                               backward_prompt_template = None,
                               backward_chain = None\<rparr>, w1)
                     | Some bt \<Rightarrow>
                         (case role_and_task cls ''BACKWARD_TASK'' (Some bt) of
                            Inl e \<Rightarrow> (Inl e, w1)
                          | Inr bpt \<Rightarrow>
                              (case from_template lib bpt of
                                 Inl e \<Rightarrow> (Inl e, w1)
                               | Inr bp \<Rightarrow>
                                   (Inr \<lparr>name = n, description = d, model = m, llm = client,
                                         forward_prompt_template = fpt,
                                         forward_chain = LLMChain client fp,
                                         backward_prompt_template = Some bpt,
                                         backward_chain = Some (LLMChain client bp)\<rparr>,
                                    w1)))))))"

text \<open>
  \<^verbatim>\<open>def forward(self): pass\<close> and \<^verbatim>\<open>def backward(self): pass\<close>: the methods take no
  argument besides \<^verbatim>\<open>self\<close>, so a call with keyword arguments raises \<^verbatim>\<open>TypeError\<close>;
  a call with none returns \<^verbatim>\<open>None\<close>. Neither touches the instance or the backend. The
  result carries the instance and the trace along, to say what became of them.
\<close>

definition BaseExpert_forward ::
  "expert \<Rightarrow> (string \<rightharpoonup> string) \<Rightarrow> world \<Rightarrow> (error + pyval) \<times> expert \<times> world" where
  "BaseExpert_forward self kw w =
     (if kw = Map.empty then (Inr PNone, self, w) else (Inl TypeError, self, w))"

definition BaseExpert_backward ::
  "expert \<Rightarrow> (string \<rightharpoonup> string) \<Rightarrow> world \<Rightarrow> (error + pyval) \<times> expert \<times> world" where
  "BaseExpert_backward self kw w =
     (if kw = Map.empty then (Inr PNone, self, w) else (Inl TypeError, self, w))"

text \<open>\<^verbatim>\<open>__str__\<close>: \<^verbatim>\<open>f'{self.name}: {self.description}'\<close>.\<close>

definition BaseExpert_str :: "expert \<Rightarrow> string \<times> expert" where
  "BaseExpert_str self = (name self @ '': '' @ description self, self)"

section \<open>The code-extraction helper\<close>

text \<open>
  Modelled from the spec: \<^verbatim>\<open>extract_code_from_string\<close> is imported by
  \<^verbatim>\<open>baseline/standard.py\<close> from the module \<^verbatim>\<open>utils\<close>, whose source is not among the
  files of the repository at hand. The spec's extraction contract: ``given a response
  string, locate a fenced code block (a substring delimited by triple-backtick markers,
  optionally annotated with a language tag) and return its inner text; if no fenced block
  is found, return the full response unchanged'', the inner text ``whitespace-trimmed''.
  The marker is three backticks.
\<close>

definition fence :: string where
  "fence = [CHR 0x60, CHR 0x60, CHR 0x60]"

text \<open>
  Modelled from the spec: locating a marker. The text is split at the first occurrence
  of the marker into what stands before it and what stands after it.
\<close>

fun find_fence :: "string \<Rightarrow> (string \<times> string) option" where
  "find_fence [] = None"
| "find_fence (c # cs) =
     (if prefix fence (c # cs) then Some ([], drop (length fence) (c # cs))
      else (case find_fence cs of None \<Rightarrow> None | Some (b, a) \<Rightarrow> Some (c # b, a)))"

text \<open>
  Modelled from the spec: ``whitespace-trimmed''. Whitespace is the six ASCII characters
  that Python's \<^verbatim>\<open>str.strip\<close> removes: space, tab, line feed, vertical tab, form feed
  and carriage return.
\<close>

definition is_space :: "char \<Rightarrow> bool" where
  "is_space c = (c = CHR '' '' \<or> c = CHR 0x09 \<or> c = CHR 0x0A \<or> c = CHR 0x0B
     \<or> c = CHR 0x0C \<or> c = CHR 0x0D)"

text \<open>
  Modelled from the spec: trimming removes the whitespace at both ends of the text.
\<close>

definition strip :: "string \<Rightarrow> string" where
  "strip s = rev (dropWhile is_space (rev (dropWhile is_space s)))"

text \<open>
  Modelled from the spec: ``optionally annotated with a language tag''. The tag is the
  word that follows the opening marker on the marker's own line; when the opening line
  holds nothing but one word (or nothing at all), that word is dropped.
\<close>

definition drop_language_tag :: "string \<Rightarrow> string" where
  "drop_language_tag inner =
     (case dropWhile (\<lambda>c. \<not> is_space c) inner of
        [] \<Rightarrow> inner
      | c # cs \<Rightarrow> if c = newline then c # cs else inner)"

text \<open>
  Modelled from the spec: the extraction itself. The block is opened by the first marker
  and closed by the next one after it; with no such pair the response is returned as it
  is.
\<close>

definition extract_code_from_string :: "string \<Rightarrow> string" where
  "extract_code_from_string response =
     (case find_fence response of
        None \<Rightarrow> response
      | Some (before, rest) \<Rightarrow>
          (case find_fence rest of
             None \<Rightarrow> response
           | Some (inner, after) \<Rightarrow> strip (drop_language_tag inner)))"

section \<open>\<^verbatim>\<open>baseline/standard.py\<close> and \<^verbatim>\<open>baseline/chain_of_thought.py\<close>\<close>

definition default_model_name :: string where
  "default_model_name = ''gpt-5-2025-08-07''"

definition standard_prompt_template :: string where
  "standard_prompt_template =
     ''You are a Python programmer in the field of operations research and '' @
     ''optimization. Your proficiency in utilizing third-party libraries such '' @
     ''as Gurobi is essential. In addition to your expertise in Gurobi, it '' @
     ''would be great if you could also provide some background in related '' @
     ''libraries or tools, like NumPy, SciPy, or PuLP.\<newline>'' @
     ''You are given a specific problem. You aim to develop an efficient '' @
     ''Python program that addresses the given problem.\<newline>'' @
     ''Now the origin problem is as follow:\<newline>'' @
     ''{problem}\<newline>'' @
     ''Give your Python code directly.''"

definition standard_solve ::
  "library \<Rightarrow> string \<Rightarrow> string \<Rightarrow> backend \<Rightarrow> world \<Rightarrow> (error + string) \<times> world" where
  "standard_solve lib problem model_name be w =
     (case ChatOpenAI lib model_name 0 w of
        (client, w1) \<Rightarrow>
          (case from_template lib standard_prompt_template of
             Inl e \<Rightarrow> (Inl e, w1)
           | Inr pt \<Rightarrow>
               (case predict (LLMChain client pt) [''problem'' \<mapsto> problem] be w1 of
                  (Inl e, w2) \<Rightarrow> (Inl e, w2)
                | (Inr answer, w2) \<Rightarrow> (Inr (extract_code_from_string answer), w2))))"

definition chain_of_thought_prompt_template :: string where
  "chain_of_thought_prompt_template =
     ''You are a Python programmer in the field of operations research and '' @
     ''optimization. Your proficiency in utilizing third-party libraries such '' @
     ''as Gurobi is essential. In addition to your expertise in Gurobi, it '' @
     ''would be great if you could also provide some background in related '' @
     ''libraries or tools, like NumPy, SciPy, or PuLP.\<newline>'' @
     ''You are given a specific problem. You aim to develop an efficient '' @
     ''Python program that addresses the given problem.\<newline>'' @
     ''Now the origin problem is as follow:\<newline>'' @
     ''{problem_description}\<newline>'' @
     ''Let's analyse the problem step by step, and then give your Python code.\<newline>'' @
     ''Here is a starter code:\<newline>'' @
     ''{code_example}''"

definition chain_of_thought_solve ::
  "library \<Rightarrow> (string \<rightharpoonup> string) \<Rightarrow> string \<Rightarrow> backend \<Rightarrow> world \<Rightarrow>
     (error + string) \<times> world" where
  "chain_of_thought_solve lib problem_data model_name be w =
     (case getitem problem_data ''description'' of
        Inl e \<Rightarrow> (Inl e, w)
      | Inr problem_description \<Rightarrow>
          (case getitem problem_data ''code_example'' of
             Inl e \<Rightarrow> (Inl e, w)
           | Inr code_example \<Rightarrow>
               (case ChatOpenAI lib model_name 0 w of
                  (client, w1) \<Rightarrow>
                    (case from_template lib chain_of_thought_prompt_template of
                       Inl e \<Rightarrow> (Inl e, w1)
                     | Inr pt \<Rightarrow>
                         predict (LLMChain client pt)
                           [''problem_description'' \<mapsto> problem_description,
                            ''code_example'' \<mapsto> code_example]
                           be w1))))"

section \<open>Notions used to state the properties\<close>

text \<open>
  The prompt a baseline solver sends: the text of its template with the arguments in
  the place of the fields.
\<close>

definition standard_prompt :: "string \<Rightarrow> string" where
  "standard_prompt problem =
     ''You are a Python programmer in the field of operations research and '' @
     ''optimization. Your proficiency in utilizing third-party libraries such '' @
     ''as Gurobi is essential. In addition to your expertise in Gurobi, it '' @
     ''would be great if you could also provide some background in related '' @
     ''libraries or tools, like NumPy, SciPy, or PuLP.\<newline>'' @
     ''You are given a specific problem. You aim to develop an efficient '' @
     ''Python program that addresses the given problem.\<newline>'' @
     ''Now the origin problem is as follow:\<newline>'' @
     problem @
     ''\<newline>Give your Python code directly.''"

definition chain_of_thought_prompt :: "string \<Rightarrow> string \<Rightarrow> string" where
  "chain_of_thought_prompt problem_description code_example =
     ''You are a Python programmer in the field of operations research and '' @
     ''optimization. Your proficiency in utilizing third-party libraries such '' @
     ''as Gurobi is essential. In addition to your expertise in Gurobi, it '' @
     ''would be great if you could also provide some background in related '' @
     ''libraries or tools, like NumPy, SciPy, or PuLP.\<newline>'' @
     ''You are given a specific problem. You aim to develop an efficient '' @
     ''Python program that addresses the given problem.\<newline>'' @
     ''Now the origin problem is as follow:\<newline>'' @
     problem_description @
     ''\<newline>Let's analyse the problem step by step, and then give your Python '' @
     ''code.\<newline>'' @
     ''Here is a starter code:\<newline>'' @
     code_example"

text \<open>
  The request that goes out through a client constructed for the model \<open>m\<close> with the
  temperature argument 0: it carries what the library's client kept of that argument.
\<close>

definition completion_request :: "library \<Rightarrow> string \<Rightarrow> string \<Rightarrow> request" where
  "completion_request lib m p =
     \<lparr>req_model = m, req_temperature = kept_temperature lib m 0, req_prompt = p\<rparr>"

text \<open>
  A response holds a fenced block when it holds two markers one after the other, with
  the block's text between them; it holds a fence when it holds one marker.
\<close>

definition has_fenced_block :: "string \<Rightarrow> bool" where
  "has_fenced_block r = (\<exists>before inner after. r = before @ fence @ inner @ fence @ after)"

definition has_fence :: "string \<Rightarrow> bool" where
  "has_fence r = sublist fence r"

text \<open>
  A class is well configured for a library when its role and its forward task are strings,
  the library reads the template that joins them, and its backward task is either not
  defined or a string that joins with the role to a template the library reads too.
\<close>

definition joins_to_template :: "library \<Rightarrow> string \<Rightarrow> pyval \<Rightarrow> bool" where
  "joins_to_template lib r task =
     (case task of
        PNone \<Rightarrow> False
      | PStr t \<Rightarrow> \<not> isl (from_template lib (r @ [newline] @ t)))"

definition well_configured :: "library \<Rightarrow> expert_class \<Rightarrow> bool" where
  "well_configured lib cls =
     (case ROLE_DESCRIPTION cls of
        Some (PStr r) \<Rightarrow>
          (case FORWARD_TASK cls of
             Some f \<Rightarrow>
               joins_to_template lib r f \<and>
               (case BACKWARD_TASK cls of None \<Rightarrow> True | Some b \<Rightarrow> joins_to_template lib r b)
           | None \<Rightarrow> False)
      | _ \<Rightarrow> False)"

text \<open>
  Two libraries to run the properties on. The first keeps every temperature argument.
  The second does not keep a temperature other than 1 for the model that the solvers
  take by default, as a client library does that knows this model to accept no other.
  Both refuse the templates that are not plain.
\<close>

definition keeping_library :: library where
  "keeping_library =
     \<lparr>kept_temperature = (\<lambda>m t. Some t), other_templates = (\<lambda>t. Inl ValueError)\<rparr>"

definition dropping_library :: library where
  "dropping_library =
     \<lparr>kept_temperature = (\<lambda>m t. if m = ''gpt-5-2025-08-07'' \<and> t \<noteq> 1 then None else Some t),
      other_templates = (\<lambda>t. Inl ValueError)\<rparr>"

text \<open>Two expert classes to run the properties on: one with a backward task, one without.\<close>

definition formulator :: expert_class where
  "formulator =
     \<lparr>ROLE_DESCRIPTION = Some (PStr ''You are a modeling expert.''),
      FORWARD_TASK = Some (PStr ''Formulate the problem: {problem}''),
      BACKWARD_TASK = None\<rparr>"

definition checker :: expert_class where
  "checker =
     \<lparr>ROLE_DESCRIPTION = Some (PStr ''You are a code checker.''),
      FORWARD_TASK = Some (PStr ''Check the code: {code}''),
      BACKWARD_TASK = Some (PStr ''Revise your check given the feedback: {feedback}'')\<rparr>"

text \<open>
  The two instances that \<^verbatim>\<open>__init__\<close> builds from these classes for the model
  \<^verbatim>\<open>gpt-4\<close>, with a library that keeps the temperature.
\<close>

definition formulator_expert :: expert where
  "formulator_expert =
     \<lparr>name = ''Modeling Expert'',
      description = ''Formulates the problem'',
      model = ''gpt-4'',
      llm = \<lparr>client_model = ''gpt-4'', client_temperature = Some 0\<rparr>,
      forward_prompt_template =
        ''You are a modeling expert.\<newline>Formulate the problem: {problem}'',
      forward_chain =
        \<lparr>chain_llm = \<lparr>client_model = ''gpt-4'', client_temperature = Some 0\<rparr>,
         chain_prompt =
           \<lparr>template = ''You are a modeling expert.\<newline>Formulate the problem: {problem}'',
            pieces = [Literal_text ''You are a modeling expert.\<newline>Formulate the problem: '',
                      Field_name ''problem'']\<rparr>\<rparr>,
      backward_prompt_template = None,
      backward_chain = None\<rparr>"

definition checker_expert :: expert where
  "checker_expert =
     \<lparr>name = ''Code Checker'',
      description = ''Checks the code'',
      model = ''gpt-4'',
      llm = \<lparr>client_model = ''gpt-4'', client_temperature = Some 0\<rparr>,
      forward_prompt_template =
        ''You are a code checker.\<newline>Check the code: {code}'',
      forward_chain =
        \<lparr>chain_llm = \<lparr>client_model = ''gpt-4'', client_temperature = Some 0\<rparr>,
         chain_prompt =
           \<lparr>template = ''You are a code checker.\<newline>Check the code: {code}'',
            pieces = [Literal_text ''You are a code checker.\<newline>Check the code: '',
                      Field_name ''code'']\<rparr>\<rparr>,
      backward_prompt_template =
        Some ''You are a code checker.\<newline>Revise your check given the feedback: {feedback}'',
      backward_chain =
        Some \<lparr>chain_llm = \<lparr>client_model = ''gpt-4'', client_temperature = Some 0\<rparr>,
              chain_prompt =
                \<lparr>template =
                   ''You are a code checker.\<newline>Revise your check given the feedback: {feedback}'',
                 pieces =
                   [Literal_text
                      ''You are a code checker.\<newline>Revise your check given the feedback: '',
                    Field_name ''feedback'']\<rparr>\<rparr>\<rparr>"

text \<open>A backend that answers every request with a fenced block, and one that fails.\<close>

definition fenced_backend :: backend where
  "fenced_backend rq = Inr (fence @ ''python\<newline>def f(): return 2\<newline>'' @ fence)"

definition failing_backend :: backend where
  "failing_backend rq = Inl BackendError"

section \<open>Properties of the code-extraction helper\<close>

lemma find_fence_sound: "find_fence s = Some (b, a) \<Longrightarrow> s = b @ fence @ a"
proof (induction s arbitrary: b)
  case Nil
  then show ?case by simp
next
  case (Cons c cs)
  show ?case
  proof (cases "prefix fence (c # cs)")
    case True
    with Cons.prems have "b = []" and "a = drop (length fence) (c # cs)" by simp_all
    moreover from True have "c # cs = fence @ drop (length fence) (c # cs)"
      by (auto simp: prefix_def)
    ultimately show ?thesis by simp
  next
    case False
    with Cons.prems obtain b' where "find_fence cs = Some (b', a)" and "b = c # b'"
      by (auto split: option.splits)
    with Cons.IH show ?thesis by simp
  qed
qed

lemma find_fence_has_fence: "find_fence s = Some (b, a) \<Longrightarrow> has_fence s"
  unfolding has_fence_def sublist_def by (blast dest: find_fence_sound)

lemma fenced_block_has_fence: "has_fenced_block r \<Longrightarrow> has_fence r"
  unfolding has_fenced_block_def has_fence_def sublist_def by blast

lemma print_has_no_fence: "\<not> has_fence ''print(2)''"
  unfolding has_fence_def by code_simp

text \<open>
  The contract's example: the block's text, without the language tag and trimmed.
\<close>

lemma extract_fenced_example:
  "extract_code_from_string
     (''prefix '' @ fence @ ''python\<newline>CODE\<newline>'' @ fence @ '' suffix'') = ''CODE''"
  by code_simp

text \<open>
  C6. For every response string that holds no block delimited by two triple-backtick
  markers, the code extraction returns the whole response unchanged:
  \<^verbatim>\<open>extract(response) == response\<close>.
\<close>

theorem extract_fallback:
  "\<not> has_fenced_block r \<Longrightarrow> extract_code_from_string r = r"
proof (cases "find_fence r")
  case None
  then show ?thesis by (simp add: extract_code_from_string_def)
next
  case (Some ba)
  assume no_block: "\<not> has_fenced_block r"
  obtain b rest where ba: "ba = (b, rest)" by (cases ba)
  show ?thesis
  proof (cases "find_fence rest")
    case None
    with Some ba show ?thesis by (simp add: extract_code_from_string_def)
  next
    case (Some ia)
    obtain inner after where "ia = (inner, after)" by (cases ia)
    with Some have "rest = inner @ fence @ after" by (simp add: find_fence_sound)
    moreover from \<open>find_fence r = Some ba\<close> ba have "r = b @ fence @ rest"
      by (simp add: find_fence_sound)
    ultimately have "has_fenced_block r" unfolding has_fenced_block_def by blast
    with no_block show ?thesis by simp
  qed
qed

theorem extract_fallback_witness:
  "\<not> has_fenced_block ''print(2)'' \<and> extract_code_from_string ''print(2)'' = ''print(2)''"
  using extract_fallback [of "''print(2)''"] fenced_block_has_fence [of "''print(2)''"]
    print_has_no_fence
  by blast

text \<open>
  C7. The code extraction is idempotent on code that is already extracted: for every
  string \<open>x\<close> that is bare code, with no fence in it,
  \<^verbatim>\<open>extract(extract(x)) == extract(x)\<close>.
\<close>

theorem extract_idempotent_on_bare_code:
  "\<not> has_fence x \<Longrightarrow>
   extract_code_from_string (extract_code_from_string x) = extract_code_from_string x"
proof -
  assume "\<not> has_fence x"
  then have "find_fence x = None"
    by (cases "find_fence x") (auto dest: find_fence_has_fence)
  then have "extract_code_from_string x = x" by (simp add: extract_code_from_string_def)
  then show ?thesis by simp
qed

theorem extract_idempotent_on_bare_code_witness:
  "\<not> has_fence ''print(2)'' \<and>
   extract_code_from_string (extract_code_from_string ''print(2)'') =
     extract_code_from_string ''print(2)''"
  using extract_idempotent_on_bare_code [of "''print(2)''"] print_has_no_fence
  by blast

section \<open>Properties of \<^verbatim>\<open>BaseExpert\<close>\<close>

lemma py_add_Inr: "py_add a b = Inr s \<longleftrightarrow> (\<exists>x y. a = PStr x \<and> b = PStr y \<and> s = x @ y)"
  by (cases a; cases b) auto

lemma role_and_task_Inr:
  "role_and_task cls task_name task = Inr s \<longleftrightarrow>
     (\<exists>r t. ROLE_DESCRIPTION cls = Some (PStr r) \<and> task = Some (PStr t) \<and> s = r @ [newline] @ t)"
  by (auto simp: role_and_task_def getattr_def py_add_Inr split: option.splits sum.splits)

lemma init_fields:
  assumes "BaseExpert_init lib cls n d m w = (Inr e, w')"
  shows "name e = n" and "description e = d" and "model e = m"
    and "llm e = fst (ChatOpenAI lib m 0 w)"
    and "w' = w @ [Client_created m 0]"
  using assms
  by (auto simp: BaseExpert_init_def ChatOpenAI_def split: sum.splits option.splits)

lemma init_forward:
  assumes "BaseExpert_init lib cls n d m w = (Inr e, w')"
  shows "\<exists>r f fp. ROLE_DESCRIPTION cls = Some (PStr r) \<and> FORWARD_TASK cls = Some (PStr f)
      \<and> from_template lib (r @ [newline] @ f) = Inr fp
      \<and> forward_prompt_template e = r @ [newline] @ f
      \<and> forward_chain e = LLMChain (fst (ChatOpenAI lib m 0 w)) fp"
  using assms
  by (auto simp: BaseExpert_init_def ChatOpenAI_def role_and_task_Inr
      split: sum.splits option.splits)

lemma init_backward:
  assumes "BaseExpert_init lib cls n d m w = (Inr e, w')"
  shows "(BACKWARD_TASK cls = None \<and> backward_prompt_template e = None \<and> backward_chain e = None)
     \<or> (\<exists>r b bp. ROLE_DESCRIPTION cls = Some (PStr r) \<and> BACKWARD_TASK cls = Some (PStr b)
          \<and> from_template lib (r @ [newline] @ b) = Inr bp
          \<and> backward_prompt_template e = Some (r @ [newline] @ b)
          \<and> backward_chain e = Some (LLMChain (fst (ChatOpenAI lib m 0 w)) bp))"
  using assms
  by (auto simp: BaseExpert_init_def ChatOpenAI_def role_and_task_Inr
      split: sum.splits option.splits)

lemma from_template_template: "from_template lib t = Inr pt \<Longrightarrow> template pt = t"
  by (auto simp: from_template_def split: parsed.splits sum.splits)

lemma init_fails_iff:
  "isl (fst (BaseExpert_init lib cls n d m w)) \<longleftrightarrow> \<not> well_configured lib cls"
proof (cases "ROLE_DESCRIPTION cls")
  case None
  then show ?thesis
    by (simp add: BaseExpert_init_def ChatOpenAI_def role_and_task_def getattr_def
        well_configured_def)
next
  case (Some rv)
  show ?thesis
  proof (cases rv)
    case PNone
    with Some show ?thesis
      by (simp add: BaseExpert_init_def ChatOpenAI_def role_and_task_def getattr_def
          well_configured_def)
  next
    case (PStr r)
    note role = Some [unfolded PStr]
    show ?thesis
    proof (cases "FORWARD_TASK cls")
      case None
      with role show ?thesis
        by (simp add: BaseExpert_init_def ChatOpenAI_def role_and_task_def getattr_def
            well_configured_def)
    next
      case (Some fv)
      with role show ?thesis
        by (cases fv; cases "BACKWARD_TASK cls")
          (auto simp: BaseExpert_init_def ChatOpenAI_def role_and_task_def getattr_def
            well_configured_def joins_to_template_def
            split: sum.splits pyval.splits)
    qed
  qed
qed

lemma init_error:
  "ROLE_DESCRIPTION cls = None \<Longrightarrow>
     fst (BaseExpert_init lib cls n d m w) = Inl (AttributeError ''ROLE_DESCRIPTION'')"
  "ROLE_DESCRIPTION cls = Some PNone \<Longrightarrow> fst (BaseExpert_init lib cls n d m w) = Inl TypeError"
  "ROLE_DESCRIPTION cls = Some (PStr r) \<Longrightarrow> FORWARD_TASK cls = None \<Longrightarrow>
     fst (BaseExpert_init lib cls n d m w) = Inl (AttributeError ''FORWARD_TASK'')"
  "ROLE_DESCRIPTION cls = Some (PStr r) \<Longrightarrow> FORWARD_TASK cls = Some PNone \<Longrightarrow>
     fst (BaseExpert_init lib cls n d m w) = Inl TypeError"
  by (simp_all add: BaseExpert_init_def ChatOpenAI_def role_and_task_def getattr_def)

lemma init_error_both_supplied:
  "ROLE_DESCRIPTION cls = Some (PStr r) \<Longrightarrow> FORWARD_TASK cls = Some (PStr f) \<Longrightarrow>
   from_template lib (r @ [newline] @ f) = Inl x \<Longrightarrow>
     fst (BaseExpert_init lib cls n d m w) = Inl x"
  "ROLE_DESCRIPTION cls = Some (PStr r) \<Longrightarrow> FORWARD_TASK cls = Some (PStr f) \<Longrightarrow>
   from_template lib (r @ [newline] @ f) = Inr fp \<Longrightarrow> BACKWARD_TASK cls = Some PNone \<Longrightarrow>
     fst (BaseExpert_init lib cls n d m w) = Inl TypeError"
  by (simp_all add: BaseExpert_init_def ChatOpenAI_def role_and_task_def getattr_def)

lemma dispatched_append: "dispatched (w @ v) = dispatched w @ dispatched v"
  by (induction w rule: dispatched.induct) simp_all

lemma bound_names_append: "bound_names (w @ v) = bound_names w @ bound_names v"
  by (induction w rule: bound_names.induct) simp_all

lemma formulator_template:
  "parse_fstring ''You are a modeling expert.\<newline>Formulate the problem: {problem}'' =
     Plain [Literal_text ''You are a modeling expert.\<newline>Formulate the problem: '',
            Field_name ''problem'']"
  by code_simp

lemma checker_templates:
  "parse_fstring ''You are a code checker.\<newline>Check the code: {code}'' =
     Plain [Literal_text ''You are a code checker.\<newline>Check the code: '', Field_name ''code'']"
  "parse_fstring ''You are a code checker.\<newline>Revise your check given the feedback: {feedback}'' =
     Plain [Literal_text ''You are a code checker.\<newline>Revise your check given the feedback: '',
            Field_name ''feedback'']"
  by code_simp+

lemma formulator_init:
  "BaseExpert_init keeping_library formulator ''Modeling Expert'' ''Formulates the problem''
     ''gpt-4'' [] =
     (Inr formulator_expert, [Client_created ''gpt-4'' 0])"
  using formulator_template
  by (simp add: BaseExpert_init_def ChatOpenAI_def role_and_task_def getattr_def from_template_def
      LLMChain_def formulator_def formulator_expert_def keeping_library_def newline_def)

lemma checker_init:
  "BaseExpert_init keeping_library checker ''Code Checker'' ''Checks the code'' ''gpt-4'' [] =
     (Inr checker_expert, [Client_created ''gpt-4'' 0])"
  using checker_templates
  by (simp add: BaseExpert_init_def ChatOpenAI_def role_and_task_def getattr_def from_template_def
      LLMChain_def checker_def checker_expert_def keeping_library_def newline_def)

text \<open>
  C1 as stated (\<^verbatim>\<open>backward\<close> raises a capability error on a unit built without a
  backward task template, and renders and dispatches on a unit built with one) does not
  hold of the code. The unit built from the class \<open>formulator\<close> has no backward task and
  no backward pipeline, and its \<^verbatim>\<open>backward\<close> returns \<^verbatim>\<open>None\<close>; the unit built from
  \<open>checker\<close> has a backward pipeline, and its \<^verbatim>\<open>backward\<close> returns \<^verbatim>\<open>None\<close> too, with
  no request dispatched.
\<close>

theorem backward_returns_None_counterexample:
  "BaseExpert_init keeping_library formulator ''Modeling Expert'' ''Formulates the problem''
     ''gpt-4'' [] =
     (Inr formulator_expert, [Client_created ''gpt-4'' 0])
   \<and> BACKWARD_TASK formulator = None
   \<and> backward_chain formulator_expert = None
   \<and> BaseExpert_backward formulator_expert Map.empty [Client_created ''gpt-4'' 0] =
       (Inr PNone, formulator_expert, [Client_created ''gpt-4'' 0])
   \<and> BaseExpert_init keeping_library checker ''Code Checker'' ''Checks the code'' ''gpt-4'' [] =
       (Inr checker_expert, [Client_created ''gpt-4'' 0])
   \<and> backward_chain checker_expert \<noteq> None
   \<and> BaseExpert_backward checker_expert Map.empty [Client_created ''gpt-4'' 0] =
       (Inr PNone, checker_expert, [Client_created ''gpt-4'' 0])"
  by (simp add: formulator_init checker_init BaseExpert_backward_def)
    (simp add: formulator_def formulator_expert_def checker_expert_def)

text \<open>
  C1, amended. For every \<^verbatim>\<open>BaseExpert\<close> that was constructed, with or without a
  backward task template, \<^verbatim>\<open>backward\<close> takes no inputs, renders nothing and dispatches
  no request: called without inputs it returns \<^verbatim>\<open>None\<close> and raises nothing, called with
  any keyword input it raises \<^verbatim>\<open>TypeError\<close>; the unit and the trace stay as they were.
  The unit has a backward pipeline exactly when its class defines a backward task; the
  pipeline is bound to the role joined with the backward task and to the client that
  the construction made by \<^verbatim>\<open>ChatOpenAI(model=model, temperature=0)\<close> (which temperature
  that client holds is the library's matter), and the base class's \<^verbatim>\<open>backward\<close> never
  invokes it.
\<close>

theorem backward_is_a_stub:
  assumes "BaseExpert_init lib cls n d m w = (Inr e, w')"
  shows "BaseExpert_backward e Map.empty u = (Inr PNone, e, u)
    \<and> BaseExpert_backward e (kw(k \<mapsto> v)) u = (Inl TypeError, e, u)
    \<and> dispatched (snd (snd (BaseExpert_backward e kw u))) = dispatched u
    \<and> (backward_chain e = None \<longleftrightarrow> BACKWARD_TASK cls = None)
    \<and> (ChatOpenAI lib m 0 w = (llm e, w'))
    \<and> (case backward_chain e of
         None \<Rightarrow> True
       | Some ch \<Rightarrow> chain_llm ch = llm e
           \<and> (\<exists>r b. ROLE_DESCRIPTION cls = Some (PStr r) \<and> BACKWARD_TASK cls = Some (PStr b)
                \<and> template (chain_prompt ch) = r @ [newline] @ b))"
proof -
  have "BaseExpert_backward e Map.empty u = (Inr PNone, e, u)"
    by (simp add: BaseExpert_backward_def)
  moreover have "BaseExpert_backward e (kw(k \<mapsto> v)) u = (Inl TypeError, e, u)"
    by (simp add: BaseExpert_backward_def)
  moreover have "dispatched (snd (snd (BaseExpert_backward e kw u))) = dispatched u"
    by (simp add: BaseExpert_backward_def)
  moreover from init_backward [OF assms]
  have "backward_chain e = None \<longleftrightarrow> BACKWARD_TASK cls = None" by auto
  moreover from init_fields(4,5) [OF assms]
  have client: "ChatOpenAI lib m 0 w = (llm e, w')"
    by (simp add: ChatOpenAI_def)
  moreover from init_backward [OF assms] init_fields(4) [OF assms]
  have "case backward_chain e of
         None \<Rightarrow> True
       | Some ch \<Rightarrow> chain_llm ch = llm e
           \<and> (\<exists>r b. ROLE_DESCRIPTION cls = Some (PStr r) \<and> BACKWARD_TASK cls = Some (PStr b)
                \<and> template (chain_prompt ch) = r @ [newline] @ b)"
    by (auto simp: LLMChain_def dest: from_template_template)
  ultimately show ?thesis by blast
qed

theorem backward_is_a_stub_witness:
  "BaseExpert_init keeping_library checker ''Code Checker'' ''Checks the code'' ''gpt-4'' [] =
     (Inr checker_expert, [Client_created ''gpt-4'' 0])
   \<and> BaseExpert_backward checker_expert Map.empty [Client_created ''gpt-4'' 0] =
       (Inr PNone, checker_expert, [Client_created ''gpt-4'' 0])
   \<and> BaseExpert_backward checker_expert [''feedback'' \<mapsto> ''too slow''] [Client_created ''gpt-4'' 0] =
       (Inl TypeError, checker_expert, [Client_created ''gpt-4'' 0])
   \<and> backward_chain checker_expert \<noteq> None \<and> BACKWARD_TASK checker \<noteq> None"
  using backward_is_a_stub [OF checker_init, where u = "[Client_created ''gpt-4'' 0]"
      and kw = Map.empty and k = "''feedback''" and v = "''too slow''"]
  by (simp add: checker_init) (simp add: checker_def)

text \<open>
  C2 as stated (\<^verbatim>\<open>forward\<close> renders the template, dispatches one request and
  returns the backend's response) does not hold of the code. On the unit built from
  \<open>formulator\<close>, with an input for the template's one placeholder, \<^verbatim>\<open>forward\<close> raises
  \<^verbatim>\<open>TypeError\<close> and dispatches nothing; called without inputs it returns \<^verbatim>\<open>None\<close> and
  dispatches nothing.
\<close>

theorem forward_dispatches_nothing_counterexample:
  "BaseExpert_init keeping_library formulator ''Modeling Expert'' ''Formulates the problem''
     ''gpt-4'' [] =
     (Inr formulator_expert, [Client_created ''gpt-4'' 0])
   \<and> input_variables (chain_prompt (forward_chain formulator_expert)) = {''problem''}
   \<and> dom [''problem'' \<mapsto> ''maximize x + y''] = {''problem''}
   \<and> BaseExpert_forward formulator_expert [''problem'' \<mapsto> ''maximize x + y'']
        [Client_created ''gpt-4'' 0] =
       (Inl TypeError, formulator_expert, [Client_created ''gpt-4'' 0])
   \<and> BaseExpert_forward formulator_expert Map.empty [Client_created ''gpt-4'' 0] =
       (Inr PNone, formulator_expert, [Client_created ''gpt-4'' 0])
   \<and> dispatched [Client_created ''gpt-4'' 0] = []"
  by (simp add: formulator_init BaseExpert_forward_def input_variables_def)
    (simp add: formulator_expert_def)

text \<open>
  C2, amended. For every \<^verbatim>\<open>BaseExpert\<close> that was constructed, \<^verbatim>\<open>forward\<close> takes no
  inputs, renders nothing and dispatches no request: called without inputs it returns
  \<^verbatim>\<open>None\<close>, called with any keyword input it raises \<^verbatim>\<open>TypeError\<close>; the unit and the
  trace stay as they were. The forward pipeline that the construction built is bound to
  the role joined with the forward task and to the client that the construction made by
  \<^verbatim>\<open>ChatOpenAI(model=model, temperature=0)\<close> (which temperature that client holds is
  the library's matter), and the base class's \<^verbatim>\<open>forward\<close> never invokes it.
\<close>

theorem forward_is_a_stub:
  assumes "BaseExpert_init lib cls n d m w = (Inr e, w')"
  shows "BaseExpert_forward e Map.empty u = (Inr PNone, e, u)
    \<and> BaseExpert_forward e (kw(k \<mapsto> v)) u = (Inl TypeError, e, u)
    \<and> dispatched (snd (snd (BaseExpert_forward e kw u))) = dispatched u
    \<and> ChatOpenAI lib m 0 w = (llm e, w')
    \<and> chain_llm (forward_chain e) = llm e
    \<and> (\<exists>r f. ROLE_DESCRIPTION cls = Some (PStr r) \<and> FORWARD_TASK cls = Some (PStr f)
          \<and> template (chain_prompt (forward_chain e)) = r @ [newline] @ f)"
proof -
  have "BaseExpert_forward e Map.empty u = (Inr PNone, e, u)"
    by (simp add: BaseExpert_forward_def)
  moreover have "BaseExpert_forward e (kw(k \<mapsto> v)) u = (Inl TypeError, e, u)"
    by (simp add: BaseExpert_forward_def)
  moreover have "dispatched (snd (snd (BaseExpert_forward e kw u))) = dispatched u"
    by (simp add: BaseExpert_forward_def)
  moreover from init_fields(4,5) [OF assms]
  have "ChatOpenAI lib m 0 w = (llm e, w')"
    by (simp add: ChatOpenAI_def)
  moreover from init_forward [OF assms] init_fields(4) [OF assms]
  have "chain_llm (forward_chain e) = llm e
    \<and> (\<exists>r f. ROLE_DESCRIPTION cls = Some (PStr r) \<and> FORWARD_TASK cls = Some (PStr f)
          \<and> template (chain_prompt (forward_chain e)) = r @ [newline] @ f)"
    by (auto simp: LLMChain_def dest: from_template_template)
  ultimately show ?thesis by blast
qed

theorem forward_is_a_stub_witness:
  "BaseExpert_init keeping_library formulator ''Modeling Expert'' ''Formulates the problem''
     ''gpt-4'' [] =
     (Inr formulator_expert, [Client_created ''gpt-4'' 0])
   \<and> BaseExpert_forward formulator_expert Map.empty [Client_created ''gpt-4'' 0] =
       (Inr PNone, formulator_expert, [Client_created ''gpt-4'' 0])
   \<and> BaseExpert_forward formulator_expert [''problem'' \<mapsto> ''maximize x + y'']
        [Client_created ''gpt-4'' 0] =
       (Inl TypeError, formulator_expert, [Client_created ''gpt-4'' 0])
   \<and> chain_llm (forward_chain formulator_expert) = llm formulator_expert"
  using forward_is_a_stub [OF formulator_init, where u = "[Client_created ''gpt-4'' 0]"
      and kw = Map.empty and k = "''problem''" and v = "''maximize x + y''"]
  by (simp add: formulator_init)

text \<open>
  C3 as stated (the construction succeeds whenever the role description and the forward
  task template are both supplied) does not hold of the code. With both supplied
  as strings, the construction still raises \<^verbatim>\<open>TypeError\<close> when the class defines
  \<^verbatim>\<open>BACKWARD_TASK = None\<close>, and \<^verbatim>\<open>ValueError\<close> when the joined template has a lone
  closing brace.
\<close>

theorem init_fails_with_both_supplied_counterexample:
  "fst (BaseExpert_init keeping_library
          \<lparr>ROLE_DESCRIPTION = Some (PStr ''You are a modeling expert.''),
           FORWARD_TASK = Some (PStr ''Formulate the problem: {problem}''),
           BACKWARD_TASK = Some PNone\<rparr>
          ''Modeling Expert'' ''Formulates the problem'' ''gpt-4'' []) = Inl TypeError
   \<and> fst (BaseExpert_init keeping_library
          \<lparr>ROLE_DESCRIPTION = Some (PStr ''You are a modeling expert.''),
           FORWARD_TASK = Some (PStr ''Close the model with }''),
           BACKWARD_TASK = None\<rparr>
          ''Modeling Expert'' ''Formulates the problem'' ''gpt-4'' []) = Inl ValueError"
proof -
  have "parse_fstring ''You are a modeling expert.\<newline>Close the model with }'' =
      Lone_closing_brace"
    by code_simp
  with formulator_template show ?thesis
    by (simp add: BaseExpert_init_def ChatOpenAI_def role_and_task_def getattr_def
        from_template_def newline_def)
qed

text \<open>
  C3, amended. The construction of a \<^verbatim>\<open>BaseExpert\<close> fails whenever the role description
  or the forward task template is absent: with \<^verbatim>\<open>AttributeError\<close> when the class does
  not define the attribute and with \<^verbatim>\<open>TypeError\<close> when the attribute is \<^verbatim>\<open>None\<close> (the
  code has no error type of its own). With both supplied as strings it still fails when
  the library refuses the template that joins them (with the library's error), and with
  \<^verbatim>\<open>TypeError\<close> when the class defines \<^verbatim>\<open>BACKWARD_TASK = None\<close>. It succeeds exactly
  when the class is well configured for the library: the role and the forward task are
  strings, the library reads the template that joins them, and the backward task is
  either not defined or a string that joins with the role to a template the library
  reads too. Which templates the library reads is the library's matter.
\<close>

theorem init_fails_without_role_or_forward_task:
  "(ROLE_DESCRIPTION cls = None \<longrightarrow>
      fst (BaseExpert_init lib cls n d m w) = Inl (AttributeError ''ROLE_DESCRIPTION''))
   \<and> (ROLE_DESCRIPTION cls = Some PNone \<longrightarrow>
      fst (BaseExpert_init lib cls n d m w) = Inl TypeError)
   \<and> (ROLE_DESCRIPTION cls = Some (PStr r) \<and> FORWARD_TASK cls = None \<longrightarrow>
      fst (BaseExpert_init lib cls n d m w) = Inl (AttributeError ''FORWARD_TASK''))
   \<and> (ROLE_DESCRIPTION cls = Some (PStr r) \<and> FORWARD_TASK cls = Some PNone \<longrightarrow>
      fst (BaseExpert_init lib cls n d m w) = Inl TypeError)
   \<and> (ROLE_DESCRIPTION cls = Some (PStr r) \<and> FORWARD_TASK cls = Some (PStr f)
        \<and> from_template lib (r @ [newline] @ f) = Inl x \<longrightarrow>
      fst (BaseExpert_init lib cls n d m w) = Inl x)
   \<and> (ROLE_DESCRIPTION cls = Some (PStr r) \<and> FORWARD_TASK cls = Some (PStr f)
        \<and> from_template lib (r @ [newline] @ f) = Inr fp \<and> BACKWARD_TASK cls = Some PNone \<longrightarrow>
      fst (BaseExpert_init lib cls n d m w) = Inl TypeError)
   \<and> (isl (fst (BaseExpert_init lib cls n d m w)) \<longleftrightarrow> \<not> well_configured lib cls)"
  by (simp add: init_error init_error_both_supplied init_fails_iff)

theorem init_fails_without_role_or_forward_task_witness:
  "fst (BaseExpert_init keeping_library (formulator\<lparr>ROLE_DESCRIPTION := None\<rparr>)
          ''Modeling Expert'' ''Formulates the problem'' ''gpt-4'' []) =
     Inl (AttributeError ''ROLE_DESCRIPTION'')
   \<and> fst (BaseExpert_init keeping_library (formulator\<lparr>ROLE_DESCRIPTION := Some PNone\<rparr>)
          ''Modeling Expert'' ''Formulates the problem'' ''gpt-4'' []) = Inl TypeError
   \<and> fst (BaseExpert_init keeping_library (formulator\<lparr>FORWARD_TASK := None\<rparr>)
          ''Modeling Expert'' ''Formulates the problem'' ''gpt-4'' []) =
     Inl (AttributeError ''FORWARD_TASK'')
   \<and> fst (BaseExpert_init keeping_library (formulator\<lparr>FORWARD_TASK := Some PNone\<rparr>)
          ''Modeling Expert'' ''Formulates the problem'' ''gpt-4'' []) = Inl TypeError
   \<and> fst (BaseExpert_init keeping_library (formulator\<lparr>BACKWARD_TASK := Some PNone\<rparr>)
          ''Modeling Expert'' ''Formulates the problem'' ''gpt-4'' []) = Inl TypeError
   \<and> well_configured keeping_library formulator
   \<and> \<not> isl (fst (BaseExpert_init keeping_library formulator ''Modeling Expert''
          ''Formulates the problem'' ''gpt-4'' []))"
proof -
  let ?r = "''You are a modeling expert.''"
  let ?f = "''Formulate the problem: {problem}''"
  let ?fp = "\<lparr>template = ?r @ [newline] @ ?f,
    pieces = [Literal_text ''You are a modeling expert.\<newline>Formulate the problem: '',
              Field_name ''problem'']\<rparr>"
  have read: "from_template keeping_library (?r @ [newline] @ ?f) = Inr ?fp"
    using formulator_template by (simp add: from_template_def newline_def)
  note inst = init_fails_without_role_or_forward_task [where lib = keeping_library
      and n = "''Modeling Expert''" and d = "''Formulates the problem''" and m = "''gpt-4''"
      and w = "[]" and r = ?r and f = ?f and fp = ?fp and x = ValueError]
  have good: "well_configured keeping_library formulator"
    using read by (simp add: well_configured_def joins_to_template_def formulator_def)
  show ?thesis
    using inst [where cls = "formulator\<lparr>ROLE_DESCRIPTION := None\<rparr>"]
      inst [where cls = "formulator\<lparr>ROLE_DESCRIPTION := Some PNone\<rparr>"]
      inst [where cls = "formulator\<lparr>FORWARD_TASK := None\<rparr>"]
      inst [where cls = "formulator\<lparr>FORWARD_TASK := Some PNone\<rparr>"]
      inst [where cls = "formulator\<lparr>BACKWARD_TASK := Some PNone\<rparr>"]
      inst [where cls = formulator] read good
    by (simp add: formulator_def)
qed

text \<open>
  C5. For every \<^verbatim>\<open>BaseExpert\<close> that was constructed, a forward pipeline exists (the
  chain of the unit's client and of the template that joins the role with the forward
  task), and a backward pipeline exists if and only if a backward task template was
  supplied at construction; neither \<^verbatim>\<open>forward\<close>, \<^verbatim>\<open>backward\<close> nor the textual
  representation changes the unit's pipelines or any other field.
\<close>

theorem pipelines_fixed_at_construction:
  assumes "BaseExpert_init lib cls n d m w = (Inr e, w')"
  shows "(\<exists>fp. from_template lib (forward_prompt_template e) = Inr fp
            \<and> forward_chain e = LLMChain (llm e) fp)
    \<and> (backward_chain e \<noteq> None \<longleftrightarrow> BACKWARD_TASK cls \<noteq> None)
    \<and> fst (snd (BaseExpert_forward e kw u)) = e
    \<and> fst (snd (BaseExpert_backward e kw u)) = e
    \<and> snd (BaseExpert_str e) = e"
proof -
  from init_forward [OF assms] init_fields(4) [OF assms]
  have "\<exists>fp. from_template lib (forward_prompt_template e) = Inr fp
            \<and> forward_chain e = LLMChain (llm e) fp"
    by auto
  moreover from init_backward [OF assms]
  have "backward_chain e \<noteq> None \<longleftrightarrow> BACKWARD_TASK cls \<noteq> None" by auto
  moreover have "fst (snd (BaseExpert_forward e kw u)) = e"
    by (simp add: BaseExpert_forward_def)
  moreover have "fst (snd (BaseExpert_backward e kw u)) = e"
    by (simp add: BaseExpert_backward_def)
  moreover have "snd (BaseExpert_str e) = e"
    by (simp add: BaseExpert_str_def)
  ultimately show ?thesis by blast
qed

theorem pipelines_fixed_at_construction_witness:
  "BaseExpert_init keeping_library checker ''Code Checker'' ''Checks the code'' ''gpt-4'' [] =
     (Inr checker_expert, [Client_created ''gpt-4'' 0])
   \<and> backward_chain checker_expert \<noteq> None \<and> BACKWARD_TASK checker \<noteq> None
   \<and> fst (snd (BaseExpert_forward checker_expert [''code'' \<mapsto> ''x = 1'']
              [Client_created ''gpt-4'' 0])) = checker_expert
   \<and> fst (snd (BaseExpert_backward checker_expert Map.empty [Client_created ''gpt-4'' 0])) =
       checker_expert
   \<and> snd (BaseExpert_str checker_expert) = checker_expert"
  using pipelines_fixed_at_construction [OF checker_init, where kw = "[''code'' \<mapsto> ''x = 1'']"
      and u = "[Client_created ''gpt-4'' 0]"]
    pipelines_fixed_at_construction [OF checker_init, where kw = Map.empty
      and u = "[Client_created ''gpt-4'' 0]"]
  by (simp add: checker_init) (simp add: checker_def)

text \<open>
  C8. For every \<^verbatim>\<open>BaseExpert\<close> with name \<open>n\<close> and description \<open>d\<close>, the textual
  representation is \<open>n\<close>, then a colon and a space, then \<open>d\<close>: for any unit by its
  fields, and for a constructed unit by the arguments of the construction.
\<close>

theorem str_is_name_colon_description:
  "fst (BaseExpert_str e) = name e @ '': '' @ description e
   \<and> (BaseExpert_init lib cls n d m w = (Inr e', w') \<longrightarrow>
        fst (BaseExpert_str e') = n @ '': '' @ d)"
  using init_fields(1,2) [of lib cls n d m w e' w'] by (simp add: BaseExpert_str_def)

theorem str_is_name_colon_description_witness:
  "BaseExpert_init keeping_library formulator ''Modeling Expert'' ''Formulates the problem''
     ''gpt-4'' [] =
     (Inr formulator_expert, [Client_created ''gpt-4'' 0])
   \<and> fst (BaseExpert_str formulator_expert) = ''Modeling Expert: Formulates the problem''"
  using str_is_name_colon_description [of formulator_expert keeping_library formulator
      "''Modeling Expert''" "''Formulates the problem''" "''gpt-4''" "[]" formulator_expert
      "[Client_created ''gpt-4'' 0]"]
  by (simp add: formulator_init) (simp add: formulator_expert_def)

section \<open>Properties of the baseline solvers\<close>

lemma standard_template_pieces:
  "\<exists>h t. parse_fstring standard_prompt_template =
            Plain [Literal_text h, Field_name ''problem'', Literal_text t]
         \<and> (\<forall>p. standard_prompt p = h @ p @ t)"
  unfolding standard_prompt_def
  apply (rule exI, rule exI, rule conjI)
   apply code_simp
  apply simp
  done

lemma chain_of_thought_template_pieces:
  "\<exists>h t. parse_fstring chain_of_thought_prompt_template =
            Plain [Literal_text h, Field_name ''problem_description'', Literal_text t,
                   Field_name ''code_example'']
         \<and> (\<forall>d c. chain_of_thought_prompt d c = h @ d @ t @ c)"
  unfolding chain_of_thought_prompt_def
  apply (rule exI, rule exI, rule conjI)
   apply code_simp
  apply simp
  done

lemma standard_solve_eq:
  "standard_solve lib p m be w =
     (case be (completion_request lib m (standard_prompt p)) of
        Inl e \<Rightarrow> Inl e
      | Inr a \<Rightarrow> Inr (extract_code_from_string a),
      w @ [Client_created m 0, Predict_called [''problem'' \<mapsto> p],
           Dispatched (completion_request lib m (standard_prompt p))])"
proof -
  from standard_template_pieces obtain h t where
    parsed: "parse_fstring standard_prompt_template =
      Plain [Literal_text h, Field_name ''problem'', Literal_text t]"
    and prompt: "standard_prompt p = h @ p @ t"
    by blast
  show ?thesis
    by (simp add: standard_solve_def ChatOpenAI_def from_template_def parsed predict_def
        LLMChain_def request_of_def completion_request_def prompt
        split: sum.splits)
qed

lemma chain_of_thought_solve_eq:
  assumes "pd ''description'' = Some d" and "pd ''code_example'' = Some c"
  shows "chain_of_thought_solve lib pd m be w =
     (be (completion_request lib m (chain_of_thought_prompt d c)),
      w @ [Client_created m 0,
           Predict_called [''problem_description'' \<mapsto> d, ''code_example'' \<mapsto> c],
           Dispatched (completion_request lib m (chain_of_thought_prompt d c))])"
proof -
  from chain_of_thought_template_pieces obtain h t where
    parsed: "parse_fstring chain_of_thought_prompt_template =
      Plain [Literal_text h, Field_name ''problem_description'', Literal_text t,
             Field_name ''code_example'']"
    and prompt: "chain_of_thought_prompt d c = h @ d @ t @ c"
    by blast
  show ?thesis
    by (simp add: chain_of_thought_solve_def getitem_def assms ChatOpenAI_def from_template_def
        parsed predict_def LLMChain_def request_of_def completion_request_def prompt)
qed

lemma extract_fenced_answer:
  "extract_code_from_string (fence @ ''python\<newline>def f(): return 2\<newline>'' @ fence) =
     ''def f(): return 2''"
  by code_simp

text \<open>
  C4 as stated (each solver dispatches its one request at temperature 0) does not hold
  of the code for every client library. The code passes \<^verbatim>\<open>temperature=0\<close> to
  \<^verbatim>\<open>ChatOpenAI\<close>; with a library that does not keep this argument for the model the
  solvers take by default, the one request that the standard solver dispatches for that
  model carries no temperature.
\<close>

theorem request_without_temperature_counterexample:
  "standard_solve dropping_library ''Maximize x+y subject to x<=1,y<=1'' default_model_name
     fenced_backend [] =
     (Inr ''def f(): return 2'',
      [Client_created ''gpt-5-2025-08-07'' 0,
       Predict_called [''problem'' \<mapsto> ''Maximize x+y subject to x<=1,y<=1''],
       Dispatched
         \<lparr>req_model = ''gpt-5-2025-08-07'', req_temperature = None,
          req_prompt = standard_prompt ''Maximize x+y subject to x<=1,y<=1''\<rparr>])"
  using extract_fenced_answer
  by (simp add: standard_solve_eq completion_request_def dropping_library_def
      default_model_name_def fenced_backend_def)

text \<open>
  C4, amended. The standard baseline solver returns the code extracted from the
  backend's response, the chain-of-thought baseline solver returns the raw response with
  no code extraction; each makes its client by \<^verbatim>\<open>ChatOpenAI\<close> with the temperature
  argument 0, renders its fixed template and dispatches exactly one text-completion
  request through that client. The request carries the temperature that the library's
  client kept of the argument: 0 with a library that keeps it, none with a library that
  drops it for the model. (The chain-of-thought solver reads its two inputs from the
  keys \<^verbatim>\<open>description\<close> and \<^verbatim>\<open>code_example\<close> of its argument.)
\<close>

theorem baseline_solvers_dispatch_once:
  "standard_solve lib p m be w =
     (case be \<lparr>req_model = m, req_temperature = kept_temperature lib m 0,
               req_prompt = standard_prompt p\<rparr> of
        Inl e \<Rightarrow> Inl e
      | Inr a \<Rightarrow> Inr (extract_code_from_string a),
      w @ [Client_created m 0, Predict_called [''problem'' \<mapsto> p],
           Dispatched \<lparr>req_model = m, req_temperature = kept_temperature lib m 0,
                       req_prompt = standard_prompt p\<rparr>])
   \<and> dispatched (snd (standard_solve lib p m be w)) =
       dispatched w @ [completion_request lib m (standard_prompt p)]
   \<and> (pd ''description'' = Some d \<and> pd ''code_example'' = Some c \<longrightarrow>
       chain_of_thought_solve lib pd m be w =
         (be \<lparr>req_model = m, req_temperature = kept_temperature lib m 0,
              req_prompt = chain_of_thought_prompt d c\<rparr>,
          w @ [Client_created m 0,
               Predict_called [''problem_description'' \<mapsto> d, ''code_example'' \<mapsto> c],
               Dispatched \<lparr>req_model = m, req_temperature = kept_temperature lib m 0,
                           req_prompt = chain_of_thought_prompt d c\<rparr>])
       \<and> dispatched (snd (chain_of_thought_solve lib pd m be w)) =
           dispatched w @ [completion_request lib m (chain_of_thought_prompt d c)])"
  by (simp add: standard_solve_eq chain_of_thought_solve_eq dispatched_append
      completion_request_def)

theorem baseline_solvers_dispatch_once_witness:
  "standard_solve keeping_library ''Maximize x+y subject to x<=1,y<=1'' ''gpt-4''
     fenced_backend [] =
     (Inr ''def f(): return 2'',
      [Client_created ''gpt-4'' 0,
       Predict_called [''problem'' \<mapsto> ''Maximize x+y subject to x<=1,y<=1''],
       Dispatched \<lparr>req_model = ''gpt-4'', req_temperature = Some 0,
                   req_prompt = standard_prompt ''Maximize x+y subject to x<=1,y<=1''\<rparr>])
   \<and> standard_solve keeping_library ''Maximize x+y subject to x<=1,y<=1'' ''gpt-4''
        failing_backend [] =
     (Inl BackendError,
      [Client_created ''gpt-4'' 0,
       Predict_called [''problem'' \<mapsto> ''Maximize x+y subject to x<=1,y<=1''],
       Dispatched \<lparr>req_model = ''gpt-4'', req_temperature = Some 0,
                   req_prompt = standard_prompt ''Maximize x+y subject to x<=1,y<=1''\<rparr>])
   \<and> [''description'' \<mapsto> ''Maximize x+y'', ''code_example'' \<mapsto> ''import gurobipy'']
        ''description'' = Some ''Maximize x+y''
   \<and> [''description'' \<mapsto> ''Maximize x+y'', ''code_example'' \<mapsto> ''import gurobipy'']
        ''code_example'' = Some ''import gurobipy''
   \<and> chain_of_thought_solve keeping_library
        [''description'' \<mapsto> ''Maximize x+y'', ''code_example'' \<mapsto> ''import gurobipy'']
        ''gpt-4'' fenced_backend [] =
     (Inr (fence @ ''python\<newline>def f(): return 2\<newline>'' @ fence),
      [Client_created ''gpt-4'' 0,
       Predict_called [''problem_description'' \<mapsto> ''Maximize x+y'',
                       ''code_example'' \<mapsto> ''import gurobipy''],
       Dispatched \<lparr>req_model = ''gpt-4'', req_temperature = Some 0,
                   req_prompt = chain_of_thought_prompt ''Maximize x+y'' ''import gurobipy''\<rparr>])"
  using baseline_solvers_dispatch_once [of keeping_library
      "''Maximize x+y subject to x<=1,y<=1''" "''gpt-4''" fenced_backend "[]"
      "[''description'' \<mapsto> ''Maximize x+y'', ''code_example'' \<mapsto> ''import gurobipy'']"
      "''Maximize x+y''" "''import gurobipy''"]
    baseline_solvers_dispatch_once [of keeping_library
      "''Maximize x+y subject to x<=1,y<=1''" "''gpt-4''" failing_backend "[]" Map.empty
      "[]" "[]"]
    extract_fenced_answer
  by (simp add: fenced_backend_def failing_backend_def keeping_library_def)

text \<open>
  C9. The template of the standard baseline has exactly the placeholder
  \<^verbatim>\<open>{problem}\<close>, the template of the chain-of-thought baseline has exactly the
  placeholders \<^verbatim>\<open>{problem_description}\<close> and \<^verbatim>\<open>{code_example}\<close>; every call of a
  solver makes one call of \<^verbatim>\<open>predict\<close>, which binds exactly those names, and the prompt
  that goes out is the template's text with the bound values in the place of the
  placeholders.
\<close>

theorem template_placeholders:
  "map_sum id input_variables (from_template lib standard_prompt_template) = Inr {''problem''}
   \<and> bound_names (snd (standard_solve lib p m be w)) = bound_names w @ [{''problem''}]
   \<and> map req_prompt (dispatched (snd (standard_solve lib p m be w))) =
       map req_prompt (dispatched w) @ [standard_prompt p]
   \<and> map_sum id input_variables (from_template lib chain_of_thought_prompt_template) =
       Inr {''problem_description'', ''code_example''}
   \<and> (pd ''description'' = Some d \<and> pd ''code_example'' = Some c \<longrightarrow>
       bound_names (snd (chain_of_thought_solve lib pd m be w)) =
         bound_names w @ [{''problem_description'', ''code_example''}]
       \<and> map req_prompt (dispatched (snd (chain_of_thought_solve lib pd m be w))) =
           map req_prompt (dispatched w) @ [chain_of_thought_prompt d c])"
proof -
  from standard_template_pieces obtain h t where
    "parse_fstring standard_prompt_template =
      Plain [Literal_text h, Field_name ''problem'', Literal_text t]"
    by blast
  then have "map_sum id input_variables (from_template lib standard_prompt_template) =
      Inr {''problem''}"
    by (simp add: from_template_def input_variables_def)
  moreover from chain_of_thought_template_pieces obtain h' t' where
    "parse_fstring chain_of_thought_prompt_template =
      Plain [Literal_text h', Field_name ''problem_description'', Literal_text t',
             Field_name ''code_example'']"
    by blast
  then have "map_sum id input_variables (from_template lib chain_of_thought_prompt_template) =
      Inr {''problem_description'', ''code_example''}"
    by (simp add: from_template_def input_variables_def)
  moreover have "bound_names (snd (standard_solve lib p m be w)) =
      bound_names w @ [{''problem''}]"
    by (simp add: standard_solve_eq bound_names_append)
  moreover have "map req_prompt (dispatched (snd (standard_solve lib p m be w))) =
      map req_prompt (dispatched w) @ [standard_prompt p]"
    by (simp add: standard_solve_eq dispatched_append completion_request_def)
  moreover have "pd ''description'' = Some d \<and> pd ''code_example'' = Some c \<longrightarrow>
       bound_names (snd (chain_of_thought_solve lib pd m be w)) =
         bound_names w @ [{''problem_description'', ''code_example''}]
       \<and> map req_prompt (dispatched (snd (chain_of_thought_solve lib pd m be w))) =
           map req_prompt (dispatched w) @ [chain_of_thought_prompt d c]"
    by (auto simp: chain_of_thought_solve_eq bound_names_append dispatched_append
        completion_request_def)
  ultimately show ?thesis by blast
qed

theorem template_placeholders_witness:
  "bound_names (snd (standard_solve keeping_library ''Maximize x+y'' ''gpt-4''
       fenced_backend [])) = [{''problem''}]
   \<and> map req_prompt (dispatched (snd (standard_solve keeping_library ''Maximize x+y'' ''gpt-4''
       fenced_backend []))) = [standard_prompt ''Maximize x+y'']
   \<and> [''description'' \<mapsto> ''Maximize x+y'', ''code_example'' \<mapsto> ''import gurobipy'']
        ''description'' = Some ''Maximize x+y''
   \<and> [''description'' \<mapsto> ''Maximize x+y'', ''code_example'' \<mapsto> ''import gurobipy'']
        ''code_example'' = Some ''import gurobipy''
   \<and> bound_names (snd (chain_of_thought_solve keeping_library
        [''description'' \<mapsto> ''Maximize x+y'', ''code_example'' \<mapsto> ''import gurobipy'']
        ''gpt-4'' fenced_backend [])) = [{''problem_description'', ''code_example''}]
   \<and> map req_prompt (dispatched (snd (chain_of_thought_solve keeping_library
        [''description'' \<mapsto> ''Maximize x+y'', ''code_example'' \<mapsto> ''import gurobipy'']
        ''gpt-4'' fenced_backend []))) =
       [chain_of_thought_prompt ''Maximize x+y'' ''import gurobipy'']"
  using template_placeholders [of keeping_library "''Maximize x+y''" "''gpt-4''"
      fenced_backend "[]"
      "[''description'' \<mapsto> ''Maximize x+y'', ''code_example'' \<mapsto> ''import gurobipy'']"
      "''Maximize x+y''" "''import gurobipy''"]
  by simp

text \<open>
  C10. The chain-of-thought solver reads the keys \<^verbatim>\<open>description\<close> and
  \<^verbatim>\<open>code_example\<close> of its argument before it constructs the backend client: for every
  mapping that lacks either key the call raises \<^verbatim>\<open>KeyError\<close> (for the first key that
  is missing), no client is created and no request is dispatched.
\<close>

theorem chain_of_thought_requires_both_keys:
  "pd ''description'' = None \<or> pd ''code_example'' = None \<Longrightarrow>
   chain_of_thought_solve lib pd m be w =
     (Inl (KeyError (if pd ''description'' = None then ''description'' else ''code_example'')),
      w)"
  by (auto simp: chain_of_thought_solve_def getitem_def split: option.splits)

theorem chain_of_thought_requires_both_keys_witness:
  "[''description'' \<mapsto> ''Maximize x+y''] ''code_example'' = None
   \<and> chain_of_thought_solve keeping_library [''description'' \<mapsto> ''Maximize x+y''] ''m''
        fenced_backend [] =
       (Inl (KeyError ''code_example''), [])
   \<and> [''code_example'' \<mapsto> ''import gurobipy''] ''description'' = None
   \<and> chain_of_thought_solve keeping_library [''code_example'' \<mapsto> ''import gurobipy''] ''m''
        fenced_backend [] =
       (Inl (KeyError ''description''), [])"
  using chain_of_thought_requires_both_keys [of "[''description'' \<mapsto> ''Maximize x+y'']"
      keeping_library "''m''" fenced_backend "[]"]
    chain_of_thought_requires_both_keys [of "[''code_example'' \<mapsto> ''import gurobipy'']"
      keeping_library "''m''" fenced_backend "[]"]
  by simp

end
